theory Spec2Isabelle
  imports Main
begin

text \<open>
  A model of the prompt enhancer: the handlers of \<^verbatim>\<open>App.tsx\<close> as functions on the
  component's state, and the operations of \<^verbatim>\<open>services/geminiService.ts\<close> as the
  request they build and the result they make of the provider's reply. What the browser
  and the provider contribute (the reply to a generation call, the outcome of a file read,
  \<^verbatim>\<open>JSON.stringify\<close>) is an argument of the function that consumes it. An asynchronous
  handler is given by the state in which it first returns control (\<open>_begin\<close>), the request
  it sends (\<open>_request\<close>), and the state in which it ends.
\<close>

section \<open>JavaScript values\<close>

text \<open>
  The replies of the generative model reach the program through \<^verbatim>\<open>JSON.parse\<close>, and
  the program reads fields of the parsed value without checking its shape. A value read this
  way is any JavaScript value a JSON text can produce, or \<^verbatim>\<open>undefined\<close> for a field
  that is absent. Numbers carry an integer; the program looks at a number only for its
  truthiness and in string interpolation.

  Strings are lists of bytes. ASCII text is written as a literal; a letter outside ASCII is
  the byte sequence of its UTF-8 encoding.
\<close>

datatype js_value =
    JUndefined
  | JNull
  | JBool bool
  | JNum int
  | JStr string
  | JArr "js_value list"
  | JObj "(string \<times> js_value) list"

text \<open>
  \<^verbatim>\<open>v.k\<close> for one of the field names the program reads (\<^verbatim>\<open>id\<close>,
  \<^verbatim>\<open>questionText\<close>, \<^verbatim>\<open>options\<close>, \<^verbatim>\<open>enhancedPrompt\<close>,
  \<^verbatim>\<open>negativePrompt\<close>, \<^verbatim>\<open>suggestions\<close>): a TypeError (\<open>None\<close>) on
  \<^verbatim>\<open>null\<close> and \<^verbatim>\<open>undefined\<close>, the field of an object, and
  \<^verbatim>\<open>undefined\<close> on an object without the field and on every other value.
\<close>

fun get_prop :: "js_value \<Rightarrow> string \<Rightarrow> js_value option" where
  "get_prop JUndefined k = None"
| "get_prop JNull k = None"
| "get_prop (JObj fs) k = Some (case map_of fs k of None \<Rightarrow> JUndefined | Some v \<Rightarrow> v)"
| "get_prop v k = Some JUndefined"

text \<open>Truthiness, as \<^verbatim>\<open>||\<close> and \<^verbatim>\<open>?:\<close> test it.\<close>

fun truthy :: "js_value \<Rightarrow> bool" where
  "truthy JUndefined = False"
| "truthy JNull = False"
| "truthy (JBool b) = b"
| "truthy (JNum n) = (n \<noteq> 0)"
| "truthy (JStr s) = (s \<noteq> [])"
| "truthy (JArr xs) = True"
| "truthy (JObj fs) = True"

definition or_else :: "js_value \<Rightarrow> js_value \<Rightarrow> js_value" where
  "or_else a b = (if truthy a then a else b)"

section \<open>Strings and numbers of the host\<close>

definition nl :: string where "nl = [CHR 0x0A]"
definition dquote :: string where "dquote = [CHR 0x22]"
definition apostrophe :: string where "apostrophe = [CHR 0x27]"

text \<open>The Polish letters of the user interface's messages, in UTF-8.\<close>

definition a_ogonek :: string where "a_ogonek = [CHR 0xC4, CHR 0x85]"
definition c_acute :: string where "c_acute = [CHR 0xC4, CHR 0x87]"
definition e_ogonek :: string where "e_ogonek = [CHR 0xC4, CHR 0x99]"
definition l_stroke :: string where "l_stroke = [CHR 0xC5, CHR 0x82]"
definition n_acute :: string where "n_acute = [CHR 0xC5, CHR 0x84]"
definition o_acute :: string where "o_acute = [CHR 0xC3, CHR 0xB3]"
definition s_acute :: string where "s_acute = [CHR 0xC5, CHR 0x9B]"
definition z_acute :: string where "z_acute = [CHR 0xC5, CHR 0xBA]"
definition z_dot :: string where "z_dot = [CHR 0xC5, CHR 0xBC]"

text \<open>
  \<^verbatim>\<open>String.prototype.trim\<close> strips the code points of WhiteSpace and LineTerminator
  from both ends: U+0009 to U+000D, U+0020, U+00A0, U+1680, U+2000 to U+200A, U+2028,
  U+2029, U+202F, U+205F, U+3000 and U+FEFF, here as their UTF-8 encodings.
\<close>

definition white_space :: "string list" where
  "white_space =
     [[CHR 0x09], [CHR 0x0A], [CHR 0x0B], [CHR 0x0C], [CHR 0x0D], [CHR 0x20],
      [CHR 0xC2, CHR 0xA0],
      [CHR 0xE1, CHR 0x9A, CHR 0x80],
      [CHR 0xE2, CHR 0x80, CHR 0x80], [CHR 0xE2, CHR 0x80, CHR 0x81],
      [CHR 0xE2, CHR 0x80, CHR 0x82], [CHR 0xE2, CHR 0x80, CHR 0x83],
      [CHR 0xE2, CHR 0x80, CHR 0x84], [CHR 0xE2, CHR 0x80, CHR 0x85],
      [CHR 0xE2, CHR 0x80, CHR 0x86], [CHR 0xE2, CHR 0x80, CHR 0x87],
      [CHR 0xE2, CHR 0x80, CHR 0x88], [CHR 0xE2, CHR 0x80, CHR 0x89],
      [CHR 0xE2, CHR 0x80, CHR 0x8A],
      [CHR 0xE2, CHR 0x80, CHR 0xA8], [CHR 0xE2, CHR 0x80, CHR 0xA9],
      [CHR 0xE2, CHR 0x80, CHR 0xAF],
      [CHR 0xE2, CHR 0x81, CHR 0x9F],
      [CHR 0xE3, CHR 0x80, CHR 0x80],
      [CHR 0xEF, CHR 0xBB, CHR 0xBF]]"

definition starts_with :: "string \<Rightarrow> string \<Rightarrow> bool" where
  "starts_with s w = (take (length w) s = w)"

text \<open>The length of the first of \<open>seqs\<close> that \<open>s\<close> starts with, or 0.\<close>

definition leading :: "string list \<Rightarrow> string \<Rightarrow> nat" where
  "leading seqs s = (case filter (starts_with s) seqs of [] \<Rightarrow> 0 | w # ws \<Rightarrow> length w)"

lemma leading_Nil: "leading seqs [] = 0"
  by (auto simp: leading_def starts_with_def split: list.splits dest: Cons_eq_filterD [OF sym])

function strip :: "string list \<Rightarrow> string \<Rightarrow> string" where
  "strip seqs s = (if leading seqs s = 0 then s else strip seqs (drop (leading seqs s) s))"
  by pat_completeness auto
termination
proof (relation "measure (\<lambda>(seqs, s). length s)")
  show "wf (measure (\<lambda>(seqs, s). length s))" by simp
next
  fix seqs :: "string list" and s :: string
  assume pos: "leading seqs s \<noteq> 0"
  then have "s \<noteq> []" using leading_Nil by auto
  with pos show "((seqs, drop (leading seqs s) s), (seqs, s)) \<in> measure (\<lambda>(seqs, s). length s)"
    by simp
qed

declare strip.simps [simp del]

definition trimStart :: "string \<Rightarrow> string" where
  "trimStart s = strip white_space s"

definition trimEnd :: "string \<Rightarrow> string" where
  "trimEnd s = rev (strip (map rev white_space) (rev s))"

definition trim :: "string \<Rightarrow> string" where
  "trim s = trimEnd (trimStart s)"

text \<open>
  \<^verbatim>\<open>parseInt(string, radix)\<close>, with \<open>None\<close> for a radix that is not given and for the
  result NaN. The program compares the result with 0 and nothing else, which the rounding
  of a long numeral to a double does not change, so the result is the integer itself.
  \<open>digit_value\<close> is 36 for a character that is a digit in no radix.
\<close>

definition digit_value :: "char \<Rightarrow> nat" where
  "digit_value c =
     (let n = (of_char c :: nat) in
      if 48 \<le> n \<and> n \<le> 57 then n - 48
      else if 97 \<le> n \<and> n \<le> 122 then n - 87
      else if 65 \<le> n \<and> n \<le> 90 then n - 55
      else 36)"

definition parseInt :: "string \<Rightarrow> nat option \<Rightarrow> int option" where
  "parseInt string radix =
     (let S = trimStart string;
          sign = (if take 1 S = ''-'' then - 1 else 1 :: int);
          S1 = (if take 1 S = ''+'' \<or> take 1 S = ''-'' then drop 1 S else S);
          R = (case radix of None \<Rightarrow> 10 | Some r \<Rightarrow> if r = 0 then 10 else r);
          stripPrefix = (case radix of None \<Rightarrow> True | Some r \<Rightarrow> r = 0 \<or> r = 16)
      in if R < 2 \<or> 36 < R then None
         else
           let hex = (stripPrefix \<and> (take 2 S1 = ''0x'' \<or> take 2 S1 = ''0X''));
               R2 = (if hex then 16 else R);
               S2 = (if hex then drop 2 S1 else S1);
               Z = takeWhile (\<lambda>c. digit_value c < R2) S2
           in if Z = [] then None
              else Some (sign * int (foldl (\<lambda>a c. a * R2 + digit_value c) 0 Z)))"

text \<open>\<^verbatim>\<open>isNaN(x)\<close> and \<^verbatim>\<open>x <= 0\<close> on such a result; a comparison with NaN is false.\<close>

definition isNaN :: "int option \<Rightarrow> bool" where
  "isNaN x = (x = None)"

definition le_zero :: "int option \<Rightarrow> bool" where
  "le_zero x = (case x of None \<Rightarrow> False | Some n \<Rightarrow> n \<le> 0)"

text \<open>A natural number in a template literal: its decimal digits.\<close>

definition digit_char :: "nat \<Rightarrow> char" where
  "digit_char n = ''0123456789'' ! n"

fun string_of_nat :: "nat \<Rightarrow> string" where
  "string_of_nat n =
     (if n < 10 then [digit_char n] else string_of_nat (n div 10) @ [digit_char (n mod 10)])"

declare string_of_nat.simps [simp del]

text \<open>\<^verbatim>\<open>Array.prototype.join\<close> on strings.\<close>

fun join :: "string \<Rightarrow> string list \<Rightarrow> string" where
  "join sep [] = []"
| "join sep [x] = x"
| "join sep (x # y # ys) = x @ sep @ join sep (y # ys)"

text \<open>
  A value in a template literal (ToString): in the string of an array,
  \<^verbatim>\<open>null\<close> and \<^verbatim>\<open>undefined\<close> elements are empty.
\<close>

fun toString :: "js_value \<Rightarrow> string" where
  "toString JUndefined = ''undefined''"
| "toString JNull = ''null''"
| "toString (JBool b) = (if b then ''true'' else ''false'')"
| "toString (JNum n) = (if n < 0 then ''-'' @ string_of_nat (nat (- n)) else string_of_nat (nat n))"
| "toString (JStr s) = s"
| "toString (JArr xs) =
     join '','' (map (\<lambda>x. if x = JNull \<or> x = JUndefined then [] else toString x) xs)"
| "toString (JObj fs) = ''[object Object]''"

section \<open>The data model (types.ts)\<close>

datatype AppState =
    INITIAL
  | GENERATING_DESCRIPTION
  | GENERATING_QUESTIONS
  | ASKING_QUESTIONS
  | GENERATING_ENHANCEMENT
  | SHOWING_RESULTS
  | ERROR
  | GENERATING_MAGIC_PROMPT
  | GENERATING_COPY_PROMPT
  | GENERATING_STYLE_INFLUENCE_PROMPT
  | GENERATING_REFINEMENT

datatype OutputType = RASTER_PROMPT

text \<open>
  The fields \<open>qa_id\<close>, \<open>questionText\<close> and \<open>options\<close> hold what the model's reply held:
  \<^verbatim>\<open>generateQuestions\<close> copies them without a check, so at run time they are any
  JavaScript value, whatever the interface declares.
\<close>

record QuestionAnswer =
  qa_id :: js_value
  questionText :: js_value
  fullQuestionPrompt :: string
  answer :: string
  options :: js_value
  selectedOptions :: "string list"

record EnhancedPromptResult =
  enhancedPrompt :: js_value
  negativePrompt :: js_value
  suggestions :: js_value
  outputTypeUsed :: OutputType

record ReferenceImage =
  base64 :: string
  mimeType :: string

section \<open>Answering questions (App.tsx, handleAnswerChange)\<close>

text \<open>
  The three optional parameters of \<^verbatim>\<open>handleAnswerChange\<close> are \<open>None\<close> when
  \<^verbatim>\<open>undefined\<close>. \<open>newSelectedOptions\<close> is the local variable of that name: a copy
  of the selection, to which the option is pushed when it is checked and not yet included,
  and from which it is filtered out when it is unchecked.
\<close>

definition newSelectedOptions ::
  "string list \<Rightarrow> string option \<Rightarrow> bool option \<Rightarrow> string list" where
  "newSelectedOptions sel selectedOption isChecked =
     (case selectedOption of
        None \<Rightarrow> sel
      | Some opt \<Rightarrow>
          (case isChecked of
             None \<Rightarrow> sel
           | Some chk \<Rightarrow>
               if chk then (if opt \<in> set sel then sel else sel @ [opt])
               else filter (\<lambda>x. x \<noteq> opt) sel))"

text \<open>The callback of \<^verbatim>\<open>prevQAs.map\<close>.\<close>

definition answerChange ::
  "string \<Rightarrow> string option \<Rightarrow> string option \<Rightarrow> bool option \<Rightarrow> QuestionAnswer
     \<Rightarrow> QuestionAnswer" where
  "answerChange questionId ans selectedOption isChecked qa =
     (if qa_id qa = JStr questionId
      then qa\<lparr>answer := (case ans of Some a \<Rightarrow> a | None \<Rightarrow> answer qa),
              selectedOptions := newSelectedOptions (selectedOptions qa) selectedOption isChecked\<rparr>
      else qa)"

text \<open>The updater handed to \<^verbatim>\<open>setQuestionAnswers\<close>.\<close>

definition handleAnswerChange ::
  "string \<Rightarrow> string option \<Rightarrow> string option \<Rightarrow> bool option \<Rightarrow> QuestionAnswer list
     \<Rightarrow> QuestionAnswer list" where
  "handleAnswerChange questionId ans selectedOption isChecked prevQAs =
     map (answerChange questionId ans selectedOption isChecked) prevQAs"

section \<open>Questions from the model's reply (geminiService.ts, generateQuestions)\<close>

text \<open>
  What a generation call gets back from the provider, after \<^verbatim>\<open>JSON.parse\<close>: the call
  or the reading of its text threw (\<open>CallFailed\<close>), the text is not JSON and the parser
  threw (\<open>NotJson\<close>), or the text parsed to a value.
\<close>

datatype reply = CallFailed | NotJson | Parsed js_value

text \<open>
  The callback of \<^verbatim>\<open>questionsData.map\<close>. Reading \<^verbatim>\<open>q.id\<close> throws on
  \<^verbatim>\<open>null\<close>. \<^verbatim>\<open>JSON.stringify\<close> is the host's and comes as a parameter.
\<close>

definition toQuestionAnswer :: "(js_value \<Rightarrow> string) \<Rightarrow> js_value \<Rightarrow> QuestionAnswer option" where
  "toQuestionAnswer stringify q =
     (case get_prop q ''id'' of
        None \<Rightarrow> None
      | Some i \<Rightarrow>
          (case get_prop q ''questionText'' of
             None \<Rightarrow> None
           | Some t \<Rightarrow>
               (case get_prop q ''options'' of
                  None \<Rightarrow> None
                | Some os \<Rightarrow>
                    Some \<lparr>qa_id = i, questionText = t, fullQuestionPrompt = stringify q,
                          answer = [], options = or_else os (JArr []),
                          selectedOptions = []\<rparr>)))"

fun mapQuestions :: "(js_value \<Rightarrow> string) \<Rightarrow> js_value list \<Rightarrow> QuestionAnswer list option" where
  "mapQuestions stringify [] = Some []"
| "mapQuestions stringify (q # qs) =
     (case toQuestionAnswer stringify q of
        None \<Rightarrow> None
      | Some qa \<Rightarrow>
          (case mapQuestions stringify qs of
             None \<Rightarrow> None
           | Some qas \<Rightarrow> Some (qa # qas)))"

text \<open>
  The outcome of \<^verbatim>\<open>generateQuestions\<close> for a reply: the mapped entries, or the one
  error the \<^verbatim>\<open>catch\<close> block throws for every failure inside the \<^verbatim>\<open>try\<close>
  (a value without \<^verbatim>\<open>map\<close> is not callable there).
\<close>

definition generateQuestions :: "(js_value \<Rightarrow> string) \<Rightarrow> reply \<Rightarrow> string + QuestionAnswer list" where
  "generateQuestions stringify r =
     (case r of
        Parsed (JArr qs) \<Rightarrow>
          (case mapQuestions stringify qs of
             None \<Rightarrow> Inl ''Failed to generate questions''
           | Some qas \<Rightarrow> Inr qas)
      | _ \<Rightarrow> Inl ''Failed to generate questions'')"

section \<open>Generation requests (geminiService.ts)\<close>

text \<open>
  A request is the list \<^verbatim>\<open>parts\<close> handed to \<^verbatim>\<open>model.generateContent\<close>: a text
  segment, or an image segment \<^verbatim>\<open>{ inlineData: { mimeType, data } }\<close>.
\<close>

datatype Part = Text string | InlineData string string

definition inlineData :: "ReferenceImage \<Rightarrow> Part" where
  "inlineData img = InlineData (mimeType img) (base64 img)"

text \<open>\<^verbatim>\<open>if (subjectImage) parts.push(...)\<close>: the parts after the optional push.\<close>

definition pushSubjectImage :: "Part list \<Rightarrow> ReferenceImage option \<Rightarrow> Part list" where
  "pushSubjectImage parts subjectImage =
     (case subjectImage of None \<Rightarrow> parts | Some img \<Rightarrow> parts @ [inlineData img])"

text \<open>
  The five operations with a JSON result build it the same way: a TypeError when the parsed
  value is \<^verbatim>\<open>null\<close>, otherwise the two prompts as the fields were found and the
  suggestions, or an empty array when they are falsy.
\<close>

definition toEnhancedPromptResult :: "js_value \<Rightarrow> EnhancedPromptResult option" where
  "toEnhancedPromptResult v =
     (case get_prop v ''enhancedPrompt'' of
        None \<Rightarrow> None
      | Some e \<Rightarrow>
          (case get_prop v ''negativePrompt'' of
             None \<Rightarrow> None
           | Some n \<Rightarrow>
               (case get_prop v ''suggestions'' of
                  None \<Rightarrow> None
                | Some s \<Rightarrow>
                    Some \<lparr>enhancedPrompt = e, negativePrompt = n,
                          suggestions = or_else s (JArr []), outputTypeUsed = RASTER_PROMPT\<rparr>)))"

text \<open>
  The \<^verbatim>\<open>try\<close> block after the request is built, and the \<^verbatim>\<open>catch\<close> block that
  throws the operation's own message for every failure.
\<close>

definition resultOrError :: "string \<Rightarrow> reply \<Rightarrow> string + EnhancedPromptResult" where
  "resultOrError message r =
     (case r of
        Parsed v \<Rightarrow>
          (case toEnhancedPromptResult v of None \<Rightarrow> Inl message | Some res \<Rightarrow> Inr res)
      | _ \<Rightarrow> Inl message)"

subsection \<open>generateEnhancedPrompt\<close>

definition answersText :: "QuestionAnswer list \<Rightarrow> string" where
  "answersText questionAnswers =
     join (nl @ nl)
       (map (\<lambda>qa.
          let selected = (if length (selectedOptions qa) > 0
                          then join '', '' (selectedOptions qa) else ''None selected'');
              notes = (if answer qa = [] then [] else ''Notes: '' @ answer qa)
          in toString (questionText qa) @ nl @ ''Selected: '' @ selected @ nl @ notes)
        questionAnswers)"

definition generateEnhancedPrompt_prompt :: "string \<Rightarrow> QuestionAnswer list \<Rightarrow> string" where
  "generateEnhancedPrompt_prompt basicPrompt questionAnswers =
     ''Create a high-quality English image generation prompt based on:'' @ nl @
     nl @
     ''Basic idea: '' @ basicPrompt @ nl @
     nl @
     ''User preferences:'' @ nl @
     answersText questionAnswers @ nl @
     nl @
     ''Generate:'' @ nl @
     ''1. Enhanced main prompt (detailed, professional, in English)'' @ nl @
     ''2. Negative prompt (what to avoid, in English)'' @ nl @
     ''3. 3-5 suggestions for further improvements (in English)'' @ nl @
     nl @
     ''Return as JSON:'' @ nl @
     ''{'' @ nl @
     ''  '' @ dquote @ ''enhancedPrompt'' @ dquote @ '': '' @ dquote @ ''detailed prompt here'' @ dquote @ '','' @ nl @
     ''  '' @ dquote @ ''negativePrompt'' @ dquote @ '': '' @ dquote @ ''negative prompt here'' @ dquote @ '','' @ nl @
     ''  '' @ dquote @ ''suggestions'' @ dquote @ '': ['' @ dquote @ ''suggestion 1'' @ dquote @ '', '' @ dquote @ ''suggestion 2'' @ dquote @ '', ...]'' @ nl @
     ''}''"

definition generateEnhancedPrompt_parts ::
  "string \<Rightarrow> QuestionAnswer list \<Rightarrow> ReferenceImage option \<Rightarrow> Part list" where
  "generateEnhancedPrompt_parts basicPrompt questionAnswers subjectImage =
     pushSubjectImage
       [Text (generateEnhancedPrompt_prompt basicPrompt questionAnswers)]
       subjectImage"

definition generateEnhancedPrompt :: "reply \<Rightarrow> string + EnhancedPromptResult" where
  "generateEnhancedPrompt r = resultOrError ''Failed to generate enhanced prompt'' r"

subsection \<open>generateImageDescription\<close>

definition generateImageDescription_prompt :: "string" where
  "generateImageDescription_prompt =
     ''Analyze this image and create a detailed English description that could be used as a base for an image generation prompt. Focus on:'' @ nl @
     ''- Main subject/objects'' @ nl @
     ''- Style and artistic elements'' @ nl @
     ''- Colors and lighting'' @ nl @
     ''- Composition and mood'' @ nl @
     ''- Important details'' @ nl @
     nl @
     ''Provide a concise but descriptive prompt in English.''"

definition generateImageDescription_parts :: "ReferenceImage \<Rightarrow> Part list" where
  "generateImageDescription_parts img = [Text generateImageDescription_prompt, inlineData img]"

subsection \<open>generateMagicPrompt\<close>

text \<open>The local \<^verbatim>\<open>dimensionsText\<close> of \<^verbatim>\<open>generateMagicPrompt\<close>.\<close>

definition magicDimensionsText :: "string \<Rightarrow> string \<Rightarrow> string \<Rightarrow> string" where
  "magicDimensionsText aspectRatio customWidth customHeight =
     (if aspectRatio = ''auto'' then []
      else if aspectRatio = ''custom''
           then ''Dimensions: '' @ customWidth @ ''x'' @ customHeight @ ''px''
           else ''Aspect ratio: '' @ aspectRatio)"

definition generateMagicPrompt_prompt :: "string \<Rightarrow> string \<Rightarrow> string \<Rightarrow> string \<Rightarrow> string" where
  "generateMagicPrompt_prompt basicPrompt aspectRatio customWidth customHeight =
     ''Create a magical, highly detailed English image generation prompt based on: '' @ dquote @ basicPrompt @ dquote @ nl @
     nl @
     magicDimensionsText aspectRatio customWidth customHeight @ nl @
     nl @
     ''Transform this basic idea into a stunning, professional-quality prompt with:'' @ nl @
     ''- Rich artistic details'' @ nl @
     ''- Professional photography/art terminology'' @ nl @
     ''- Specific lighting and mood descriptions'' @ nl @
     ''- High-quality rendering specifications'' @ nl @
     nl @
     ''Also provide:'' @ nl @
     ''- Negative prompt (what to avoid)'' @ nl @
     ''- 3-5 creative suggestions for variations'' @ nl @
     nl @
     ''Return as JSON:'' @ nl @
     ''{'' @ nl @
     ''  '' @ dquote @ ''enhancedPrompt'' @ dquote @ '': '' @ dquote @ ''magical detailed prompt here'' @ dquote @ '','' @ nl @
     ''  '' @ dquote @ ''negativePrompt'' @ dquote @ '': '' @ dquote @ ''negative prompt here'' @ dquote @ '','' @ nl @
     ''  '' @ dquote @ ''suggestions'' @ dquote @ '': ['' @ dquote @ ''suggestion 1'' @ dquote @ '', '' @ dquote @ ''suggestion 2'' @ dquote @ '', ...]'' @ nl @
     ''}''"

definition generateMagicPrompt_parts ::
  "string \<Rightarrow> string \<Rightarrow> string \<Rightarrow> string \<Rightarrow> ReferenceImage option \<Rightarrow> Part list" where
  "generateMagicPrompt_parts basicPrompt aspectRatio customWidth customHeight subjectImage =
     pushSubjectImage
       [Text (generateMagicPrompt_prompt basicPrompt aspectRatio customWidth customHeight)]
       subjectImage"

definition generateMagicPrompt :: "reply \<Rightarrow> string + EnhancedPromptResult" where
  "generateMagicPrompt r = resultOrError ''Failed to generate magic prompt'' r"

subsection \<open>generateCopyImagePrompt\<close>

definition generateCopyImagePrompt_prompt :: "string" where
  "generateCopyImagePrompt_prompt =
     ''Analyze this image in extreme detail and create a comprehensive English prompt that would recreate this image as closely as possible. Include:'' @ nl @
     nl @
     ''- Exact description of all subjects/objects'' @ nl @
     ''- Precise artistic style and technique'' @ nl @
     ''- Detailed lighting setup and shadows'' @ nl @
     ''- Color palette and saturation'' @ nl @
     ''- Composition and framing'' @ nl @
     ''- Texture and material details'' @ nl @
     ''- Background elements'' @ nl @
     ''- Camera settings if photographic'' @ nl @
     nl @
     ''Also provide:'' @ nl @
     ''- Negative prompt to avoid unwanted elements'' @ nl @
     ''- 3-5 suggestions for fine-tuning'' @ nl @
     nl @
     ''Return as JSON:'' @ nl @
     ''{'' @ nl @
     ''  '' @ dquote @ ''enhancedPrompt'' @ dquote @ '': '' @ dquote @ ''extremely detailed recreation prompt here'' @ dquote @ '','' @ nl @
     ''  '' @ dquote @ ''negativePrompt'' @ dquote @ '': '' @ dquote @ ''negative prompt here'' @ dquote @ '','' @ nl @
     ''  '' @ dquote @ ''suggestions'' @ dquote @ '': ['' @ dquote @ ''suggestion 1'' @ dquote @ '', '' @ dquote @ ''suggestion 2'' @ dquote @ '', ...]'' @ nl @
     ''}''"

definition generateCopyImagePrompt_parts :: "ReferenceImage \<Rightarrow> Part list" where
  "generateCopyImagePrompt_parts img = [Text generateCopyImagePrompt_prompt, inlineData img]"

definition generateCopyImagePrompt :: "reply \<Rightarrow> string + EnhancedPromptResult" where
  "generateCopyImagePrompt r = resultOrError ''Failed to generate copy image prompt'' r"

subsection \<open>generateStyleInfluencePrompt\<close>

text \<open>
  The local \<^verbatim>\<open>dimensionsText\<close> of \<^verbatim>\<open>generateStyleInfluencePrompt\<close>, whose three
  dimension parameters are optional (\<open>None\<close> when not given) and are tested for truthiness:
  a string is truthy when it is not empty.
\<close>

definition string_or_empty :: "string option \<Rightarrow> string" where
  "string_or_empty s = (case s of None \<Rightarrow> [] | Some t \<Rightarrow> t)"

definition truthy_string :: "string option \<Rightarrow> bool" where
  "truthy_string s = (string_or_empty s \<noteq> [])"

definition styleDimensionsText :: "string option \<Rightarrow> string option \<Rightarrow> string option \<Rightarrow> string" where
  "styleDimensionsText aspectRatio customWidth customHeight =
     (if truthy_string aspectRatio \<and> aspectRatio \<noteq> Some ''auto''
      then if aspectRatio = Some ''custom'' \<and> truthy_string customWidth
                \<and> truthy_string customHeight
           then ''Dimensions: '' @ string_or_empty customWidth @ ''x''
                  @ string_or_empty customHeight @ ''px''
           else ''Aspect ratio: '' @ string_or_empty aspectRatio
      else [])"

definition generateStyleInfluencePrompt_prompt :: "string \<Rightarrow> string option \<Rightarrow> string option \<Rightarrow> string option \<Rightarrow> string" where
  "generateStyleInfluencePrompt_prompt basicPrompt aspectRatio customWidth customHeight =
     ''Create an English image generation prompt that combines:'' @ nl @
     nl @
     ''Subject/Theme: '' @ basicPrompt @ nl @
     styleDimensionsText aspectRatio customWidth customHeight @ nl @
     nl @
     ''Analyze the style reference image and apply its artistic characteristics to the subject. Focus on:'' @ nl @
     ''- Artistic technique and medium'' @ nl @
     ''- Color palette and mood'' @ nl @
     ''- Lighting style'' @ nl @
     ''- Brushwork or rendering technique'' @ nl @
     ''- Overall aesthetic approach'' @ nl @
     nl @
     ''Create a detailed prompt that merges the subject with the reference style.'' @ nl @
     nl @
     ''Also provide:'' @ nl @
     ''- Negative prompt'' @ nl @
     ''- 3-5 creative variations'' @ nl @
     nl @
     ''Return as JSON:'' @ nl @
     ''{'' @ nl @
     ''  '' @ dquote @ ''enhancedPrompt'' @ dquote @ '': '' @ dquote @ ''style-influenced prompt here'' @ dquote @ '','' @ nl @
     ''  '' @ dquote @ ''negativePrompt'' @ dquote @ '': '' @ dquote @ ''negative prompt here'' @ dquote @ '','' @ nl @
     ''  '' @ dquote @ ''suggestions'' @ dquote @ '': ['' @ dquote @ ''suggestion 1'' @ dquote @ '', '' @ dquote @ ''suggestion 2'' @ dquote @ '', ...]'' @ nl @
     ''}''"

definition generateStyleInfluencePrompt_parts ::
  "string \<Rightarrow> ReferenceImage \<Rightarrow> ReferenceImage option \<Rightarrow> string option \<Rightarrow> string option
     \<Rightarrow> string option \<Rightarrow> Part list" where
  "generateStyleInfluencePrompt_parts basicPrompt styleImage subjectImage aspectRatio
       customWidth customHeight =
     pushSubjectImage
       ([Text (generateStyleInfluencePrompt_prompt basicPrompt aspectRatio customWidth
                 customHeight)]
        @ [inlineData styleImage])
       subjectImage"

definition generateStyleInfluencePrompt :: "reply \<Rightarrow> string + EnhancedPromptResult" where
  "generateStyleInfluencePrompt r = resultOrError ''Failed to generate style influence prompt'' r"

subsection \<open>refineEditedPrompt\<close>

definition answersContext :: "QuestionAnswer list \<Rightarrow> string" where
  "answersContext questionAnswers =
     join nl
       (map (\<lambda>qa.
          let selected = (if length (selectedOptions qa) > 0
                          then join '', '' (selectedOptions qa) else ''None'');
              notes = (if answer qa = [] then [] else ''Notes: '' @ answer qa)
          in toString (questionText qa) @ '': '' @ selected @ '' '' @ notes)
        questionAnswers)"

definition refineEditedPrompt_prompt :: "string \<Rightarrow> string \<Rightarrow> QuestionAnswer list \<Rightarrow> string" where
  "refineEditedPrompt_prompt editedPrompt originalBasicPrompt questionAnswers =
     ''Refine and improve this edited prompt while maintaining the user'' @ apostrophe @ ''s intent:'' @ nl @
     nl @
     ''Edited Prompt: '' @ editedPrompt @ nl @
     nl @
     ''Original Context:'' @ nl @
     ''- Basic idea: '' @ originalBasicPrompt @ nl @
     ''- User preferences: '' @ answersContext questionAnswers @ nl @
     nl @
     ''Improve the edited prompt by:'' @ nl @
     ''- Fixing any grammar or clarity issues'' @ nl @
     ''- Enhancing technical terminology'' @ nl @
     ''- Maintaining the user'' @ apostrophe @ ''s creative vision'' @ nl @
     ''- Adding professional quality specifications'' @ nl @
     nl @
     ''Provide:'' @ nl @
     ''- Refined enhanced prompt'' @ nl @
     ''- Updated negative prompt'' @ nl @
     ''- 3-5 suggestions for further refinement'' @ nl @
     nl @
     ''Return as JSON:'' @ nl @
     ''{'' @ nl @
     ''  '' @ dquote @ ''enhancedPrompt'' @ dquote @ '': '' @ dquote @ ''refined prompt here'' @ dquote @ '','' @ nl @
     ''  '' @ dquote @ ''negativePrompt'' @ dquote @ '': '' @ dquote @ ''negative prompt here'' @ dquote @ '','' @ nl @
     ''  '' @ dquote @ ''suggestions'' @ dquote @ '': ['' @ dquote @ ''suggestion 1'' @ dquote @ '', '' @ dquote @ ''suggestion 2'' @ dquote @ '', ...]'' @ nl @
     ''}''"

definition refineEditedPrompt_parts ::
  "string \<Rightarrow> string \<Rightarrow> QuestionAnswer list \<Rightarrow> ReferenceImage option \<Rightarrow> Part list" where
  "refineEditedPrompt_parts editedPrompt originalBasicPrompt questionAnswers subjectImage =
     pushSubjectImage
       [Text (refineEditedPrompt_prompt editedPrompt originalBasicPrompt questionAnswers)]
       subjectImage"

definition refineEditedPrompt :: "reply \<Rightarrow> string + EnhancedPromptResult" where
  "refineEditedPrompt r = resultOrError ''Failed to refine edited prompt'' r"

section \<open>The application (App.tsx)\<close>



definition IPHONE_14_WALLPAPER_OPTION_VALUE :: string where
  "IPHONE_14_WALLPAPER_OPTION_VALUE = ''iphone_14_14pro_wallpaper''"

definition NUMBER_OF_QUESTIONS_TO_ASK :: nat where "NUMBER_OF_QUESTIONS_TO_ASK = 11"

text \<open>What the program reads of a browser \<^verbatim>\<open>File\<close>: its name, its declared type, its size.\<close>

record File =
  file_name :: string
  file_type :: string
  file_size :: nat

datatype ImageType = Subject | Style

text \<open>
  The state of the component: one field per \<^verbatim>\<open>useState\<close>, and for each of the two
  \<^verbatim>\<open>useRef\<close> the value of the file input it points to (\<open>None\<close> while
  \<^verbatim>\<open>current\<close> is \<^verbatim>\<open>null\<close>).
\<close>

record App =
  appState :: AppState
  basicPrompt :: string
  questionAnswers :: "QuestionAnswer list"
  enhancedResult :: "EnhancedPromptResult option"
  error :: "string option"
  apiKeyExists :: bool
  copiedEnhancedPrompt :: bool
  copiedNegativePrompt :: bool
  copiedSuggestionIndex :: "nat option"
  subjectReferenceImageFile :: "File option"
  subjectReferenceImagePreview :: "string option"
  subjectFileInputRef :: "string option"
  styleReferenceImageFile :: "File option"
  styleReferenceImagePreview :: "string option"
  styleFileInputRef :: "string option"
  outputAspectRatio :: string
  outputCustomWidth :: string
  outputCustomHeight :: string
  isEditingEnhancedPrompt :: bool
  editedEnhancedPromptText :: string

text \<open>The initial values of the \<^verbatim>\<open>useState\<close> calls, with both file inputs mounted.\<close>

definition initialApp :: App where
  "initialApp =
     \<lparr>appState = INITIAL, basicPrompt = [], questionAnswers = [], enhancedResult = None,
      error = None, apiKeyExists = False, copiedEnhancedPrompt = False,
      copiedNegativePrompt = False, copiedSuggestionIndex = None,
      subjectReferenceImageFile = None, subjectReferenceImagePreview = None,
      subjectFileInputRef = Some [],
      styleReferenceImageFile = None, styleReferenceImagePreview = None,
      styleFileInputRef = Some [],
      outputAspectRatio = ''auto'', outputCustomWidth = [], outputCustomHeight = [],
      isEditingEnhancedPrompt = False, editedEnhancedPromptText = []\<rparr>"

subsection \<open>The messages\<close>



definition basicPromptMissingMessage :: "string" where
  "basicPromptMissingMessage =
     ''Prosz'' @ e_ogonek @ '' wpisa'' @ c_acute @ '' podstawowy pomys'' @ l_stroke @ '' na prompt lub wygenerowa'' @ c_acute @ '' go z obrazu tematu.''"

definition countMismatchMessage :: "nat \<Rightarrow> string" where
  "countMismatchMessage n =
     ''Niespodziewana liczba pyta'' @ n_acute @ '' od AI. Otrzymano '' @ string_of_nat n @ '', oczekiwano '' @ string_of_nat NUMBER_OF_QUESTIONS_TO_ASK @ ''.''"

definition questionsFallbackMessage :: "string" where
  "questionsFallbackMessage =
     ''Nie uda'' @ l_stroke @ ''o si'' @ e_ogonek @ '' wygenerowa'' @ c_acute @ '' '' @ string_of_nat NUMBER_OF_QUESTIONS_TO_ASK @ '' pyta'' @ n_acute @ ''. Sprawd'' @ z_acute @ '' konsol'' @ e_ogonek @ '', aby uzyska'' @ c_acute @ '' wi'' @ e_ogonek @ ''cej szczeg'' @ o_acute @ l_stroke @ o_acute @ ''w.''"

definition magicPromptMissingMessage :: "string" where
  "magicPromptMissingMessage =
     ''Prosz'' @ e_ogonek @ '' wpisa'' @ c_acute @ '' podstawowy pomys'' @ l_stroke @ '' na prompt (mo'' @ z_dot @ ''e by'' @ c_acute @ '' po polsku lub angielsku) lub wygenerowa'' @ c_acute @ '' go z obrazu tematu. Dla '' @ apostrophe @ ''Magicznego Promptu'' @ apostrophe @ '', ten tekst (wraz z obrazem referencyjnym tematu, je'' @ s_acute @ ''li dodano) pos'' @ l_stroke @ ''u'' @ z_dot @ ''y AI do kreatywnego rozwini'' @ e_ogonek @ ''cia. Wynikowy prompt b'' @ e_ogonek @ ''dzie po angielsku.''"

definition customDimensionsMessage :: "string" where
  "customDimensionsMessage =
     ''Dla niestandardowych wymiar'' @ o_acute @ ''w, prosz'' @ e_ogonek @ '' poda'' @ c_acute @ '' prawid'' @ l_stroke @ ''ow'' @ a_ogonek @ '' szeroko'' @ s_acute @ c_acute @ '' i wysoko'' @ s_acute @ c_acute @ '' (wi'' @ e_ogonek @ ''ksze od 0).''"

definition magicReadErrorMessage :: "string" where
  "magicReadErrorMessage =
     ''Nie uda'' @ l_stroke @ ''o si'' @ e_ogonek @ '' przetworzy'' @ c_acute @ '' obrazu referencyjnego tematu dla magicznego promptu. Spr'' @ o_acute @ ''buj ponownie lub kontynuuj bez obrazu.''"

definition magicFallbackMessage :: "string" where
  "magicFallbackMessage =
     ''Nie uda'' @ l_stroke @ ''o si'' @ e_ogonek @ '' wygenerowa'' @ c_acute @ '' magicznego promptu. Sprawd'' @ z_acute @ '' konsol'' @ e_ogonek @ ''.''"

definition styleImageMissingMessage :: "string" where
  "styleImageMissingMessage =
     ''Aby zastosowa'' @ c_acute @ '' wp'' @ l_stroke @ ''yw stylu, prze'' @ s_acute @ ''lij '' @ apostrophe @ ''Obraz Stylu Referencyjnego'' @ apostrophe @ ''.''"

definition styleSubjectMissingMessage :: "string" where
  "styleSubjectMissingMessage =
     ''Podaj '' @ apostrophe @ ''Podstawowy pomys'' @ l_stroke @ ''/prompt'' @ apostrophe @ '' (mo'' @ z_dot @ ''e by'' @ c_acute @ '' po polsku lub angielsku) opisuj'' @ a_ogonek @ ''cy temat LUB prze'' @ s_acute @ ''lij '' @ apostrophe @ ''Obraz Referencyjny (Temat/Obiekt)'' @ apostrophe @ ''. Wynikowy prompt b'' @ e_ogonek @ ''dzie po angielsku.''"

definition styleSubjectReadErrorMessage :: "string" where
  "styleSubjectReadErrorMessage =
     ''Nie uda'' @ l_stroke @ ''o si'' @ e_ogonek @ '' przetworzy'' @ c_acute @ '' obrazu referencyjnego tematu. Spr'' @ o_acute @ ''buj ponownie.''"

definition styleReadErrorMessage :: "string" where
  "styleReadErrorMessage =
     ''Nie uda'' @ l_stroke @ ''o si'' @ e_ogonek @ '' przetworzy'' @ c_acute @ '' obrazu stylu referencyjnego. Spr'' @ o_acute @ ''buj ponownie.''"

definition styleFallbackMessage :: "string" where
  "styleFallbackMessage =
     ''Nie uda'' @ l_stroke @ ''o si'' @ e_ogonek @ '' wygenerowa'' @ c_acute @ '' promptu z wp'' @ l_stroke @ ''ywem stylu. Sprawd'' @ z_acute @ '' konsol'' @ e_ogonek @ ''.''"

text \<open>\<^verbatim>\<open>(err as Error).message || fallback\<close>.\<close>

definition message_or :: "string \<Rightarrow> string \<Rightarrow> string" where
  "message_or message fallback = (if message = [] then fallback else message)"

subsection \<open>handleImageUpload\<close>





subsection \<open>handleBasicPromptSubmit\<close>

text \<open>
  The body of the \<^verbatim>\<open>try\<close> block: the questions, or the message of the error thrown
  (by \<^verbatim>\<open>generateQuestions\<close>, or by the count check).
\<close>

definition checkedQuestions :: "(js_value \<Rightarrow> string) \<Rightarrow> reply \<Rightarrow> string + QuestionAnswer list" where
  "checkedQuestions stringify r =
     (case generateQuestions stringify r of
        Inl message \<Rightarrow> Inl message
      | Inr newQuestionAnswers \<Rightarrow>
          if length newQuestionAnswers = NUMBER_OF_QUESTIONS_TO_ASK
          then Inr newQuestionAnswers
          else Inl (countMismatchMessage (length newQuestionAnswers)))"

text \<open>The state when the handler first returns control: after its guard, or at its await.\<close>

definition handleBasicPromptSubmit_begin :: "App \<Rightarrow> App" where
  "handleBasicPromptSubmit_begin st =
     (if trim (basicPrompt st) = [] then st\<lparr>error := Some basicPromptMissingMessage\<rparr>
      else st\<lparr>error := None, appState := GENERATING_QUESTIONS\<rparr>)"

text \<open>The state when the handler has run to its end, for the reply its call got.\<close>

definition handleBasicPromptSubmit :: "(js_value \<Rightarrow> string) \<Rightarrow> reply \<Rightarrow> App \<Rightarrow> App" where
  "handleBasicPromptSubmit stringify r st =
     (if trim (basicPrompt st) = [] then handleBasicPromptSubmit_begin st
      else
        (case checkedQuestions stringify r of
           Inr newQuestionAnswers \<Rightarrow>
             (handleBasicPromptSubmit_begin st)
               \<lparr>questionAnswers := newQuestionAnswers, appState := ASKING_QUESTIONS\<rparr>
         | Inl message \<Rightarrow>
             (handleBasicPromptSubmit_begin st)
               \<lparr>error := Some (message_or message questionsFallbackMessage),
                appState := ERROR\<rparr>))"

subsection \<open>Custom dimensions\<close>

text \<open>The memoised \<^verbatim>\<open>isCustomDimensionsInvalid\<close>, which disables the two buttons.\<close>

definition isCustomDimensionsInvalid :: "App \<Rightarrow> bool" where
  "isCustomDimensionsInvalid st =
     (if outputAspectRatio st = ''custom''
      then if trim (outputCustomWidth st) = [] \<or> trim (outputCustomHeight st) = [] then True
           else let width = parseInt (outputCustomWidth st) (Some 10);
                    height = parseInt (outputCustomHeight st) (Some 10)
                in isNaN width \<or> le_zero width \<or> isNaN height \<or> le_zero height
      else False)"

text \<open>
  The test that \<^verbatim>\<open>handleMagicPromptSubmit\<close> and \<^verbatim>\<open>handleStyleInfluenceSubmit\<close>
  write out themselves before they set their message.
\<close>

definition customDimensionsRejected :: "App \<Rightarrow> bool" where
  "customDimensionsRejected st =
     (outputAspectRatio st = ''custom'' \<and>
      (trim (outputCustomWidth st) = [] \<or> trim (outputCustomHeight st) = [] \<or>
       le_zero (parseInt (outputCustomWidth st) None) \<or>
       le_zero (parseInt (outputCustomHeight st) None)))"

text \<open>\<^verbatim>\<open>currentOutputCustomWidth\<close> and \<^verbatim>\<open>currentOutputCustomHeight\<close> of both handlers.\<close>

definition currentOutputCustomWidth :: "App \<Rightarrow> string" where
  "currentOutputCustomWidth st =
     (if outputAspectRatio st = IPHONE_14_WALLPAPER_OPTION_VALUE then ''1170''
      else outputCustomWidth st)"

definition currentOutputCustomHeight :: "App \<Rightarrow> string" where
  "currentOutputCustomHeight st =
     (if outputAspectRatio st = IPHONE_14_WALLPAPER_OPTION_VALUE then ''2532''
      else outputCustomHeight st)"

text \<open>
  Reading a file for a request: \<open>read\<close> is what the \<^verbatim>\<open>FileReader\<close> gave for it, the
  base64 text after the comma of the data URL, or \<open>None\<close> when the read failed.
\<close>

definition imagePayload :: "File \<Rightarrow> string option \<Rightarrow> ReferenceImage option" where
  "imagePayload f read =
     (case read of None \<Rightarrow> None | Some b \<Rightarrow> Some \<lparr>base64 = b, mimeType = file_type f\<rparr>)"

subsection \<open>handleMagicPromptSubmit\<close>

text \<open>The message of the first guard that stops the handler, if one does.\<close>

definition handleMagicPromptSubmit_guard :: "App \<Rightarrow> string option" where
  "handleMagicPromptSubmit_guard st =
     (if trim (basicPrompt st) = [] then Some magicPromptMissingMessage
      else if customDimensionsRejected st then Some customDimensionsMessage
      else None)"

definition handleMagicPromptSubmit_begin :: "App \<Rightarrow> App" where
  "handleMagicPromptSubmit_begin st =
     (case handleMagicPromptSubmit_guard st of
        Some message \<Rightarrow> st\<lparr>error := Some message\<rparr>
      | None \<Rightarrow> st\<lparr>error := None, appState := GENERATING_MAGIC_PROMPT\<rparr>)"

text \<open>
  The request the handler sends, when it gets that far: \<open>subjectRead\<close> is the outcome of
  reading the subject image, consulted only when there is one.
\<close>

definition handleMagicPromptSubmit_request :: "string option \<Rightarrow> App \<Rightarrow> Part list option" where
  "handleMagicPromptSubmit_request subjectRead st =
     (case handleMagicPromptSubmit_guard st of
        Some message \<Rightarrow> None
      | None \<Rightarrow>
          (case subjectReferenceImageFile st of
             None \<Rightarrow>
               Some (generateMagicPrompt_parts (basicPrompt st) (outputAspectRatio st)
                       (currentOutputCustomWidth st) (currentOutputCustomHeight st) None)
           | Some f \<Rightarrow>
               (case imagePayload f subjectRead of
                  None \<Rightarrow> None
                | Some subjectImagePayload \<Rightarrow>
                    Some (generateMagicPrompt_parts (basicPrompt st) (outputAspectRatio st)
                            (currentOutputCustomWidth st) (currentOutputCustomHeight st)
                            (Some subjectImagePayload)))))"

definition handleMagicPromptSubmit :: "string option \<Rightarrow> reply \<Rightarrow> App \<Rightarrow> App" where
  "handleMagicPromptSubmit subjectRead r st =
     (case handleMagicPromptSubmit_request subjectRead st of
        None \<Rightarrow>
          (case handleMagicPromptSubmit_guard st of
             Some message \<Rightarrow> handleMagicPromptSubmit_begin st
           | None \<Rightarrow>
               (handleMagicPromptSubmit_begin st)
                 \<lparr>error := Some magicReadErrorMessage, appState := INITIAL\<rparr>)
      | Some parts \<Rightarrow>
          (case generateMagicPrompt r of
             Inr result \<Rightarrow>
               (handleMagicPromptSubmit_begin st)
                 \<lparr>enhancedResult := Some result, appState := SHOWING_RESULTS\<rparr>
           | Inl message \<Rightarrow>
               (handleMagicPromptSubmit_begin st)
                 \<lparr>error := Some (message_or message magicFallbackMessage),
                  appState := ERROR\<rparr>))"

subsection \<open>handleStyleInfluenceSubmit\<close>

definition handleStyleInfluenceSubmit_guard :: "App \<Rightarrow> string option" where
  "handleStyleInfluenceSubmit_guard st =
     (if styleReferenceImageFile st = None then Some styleImageMissingMessage
      else if trim (basicPrompt st) = [] \<and> subjectReferenceImageFile st = None
      then Some styleSubjectMissingMessage
      else if customDimensionsRejected st then Some customDimensionsMessage
      else None)"

definition handleStyleInfluenceSubmit_begin :: "App \<Rightarrow> App" where
  "handleStyleInfluenceSubmit_begin st =
     (case handleStyleInfluenceSubmit_guard st of
        Some message \<Rightarrow> st\<lparr>error := Some message\<rparr>
      | None \<Rightarrow> st\<lparr>error := None, appState := GENERATING_STYLE_INFLUENCE_PROMPT\<rparr>)"

text \<open>
  The two reads of the handler, the subject image first: the payloads, or the message of
  the read that failed.
\<close>

definition stylePayloads ::
  "string option \<Rightarrow> string option \<Rightarrow> App \<Rightarrow> string + (ReferenceImage \<times> ReferenceImage option)" where
  "stylePayloads subjectRead styleRead st =
     (case styleReferenceImageFile st of
        None \<Rightarrow> Inl styleImageMissingMessage
      | Some styleFile \<Rightarrow>
          (case subjectReferenceImageFile st of
             None \<Rightarrow>
               (case imagePayload styleFile styleRead of
                  None \<Rightarrow> Inl styleReadErrorMessage
                | Some styleImagePayload \<Rightarrow> Inr (styleImagePayload, None))
           | Some subjectFile \<Rightarrow>
               (case imagePayload subjectFile subjectRead of
                  None \<Rightarrow> Inl styleSubjectReadErrorMessage
                | Some subjectImagePayload \<Rightarrow>
                    (case imagePayload styleFile styleRead of
                       None \<Rightarrow> Inl styleReadErrorMessage
                     | Some styleImagePayload \<Rightarrow>
                         Inr (styleImagePayload, Some subjectImagePayload)))))"

definition handleStyleInfluenceSubmit_request ::
  "string option \<Rightarrow> string option \<Rightarrow> App \<Rightarrow> Part list option" where
  "handleStyleInfluenceSubmit_request subjectRead styleRead st =
     (case handleStyleInfluenceSubmit_guard st of
        Some message \<Rightarrow> None
      | None \<Rightarrow>
          (case stylePayloads subjectRead styleRead st of
             Inl message \<Rightarrow> None
           | Inr (styleImagePayload, subjectImagePayload) \<Rightarrow>
               Some (generateStyleInfluencePrompt_parts (basicPrompt st) styleImagePayload
                       subjectImagePayload (Some (outputAspectRatio st))
                       (Some (currentOutputCustomWidth st))
                       (Some (currentOutputCustomHeight st)))))"

definition handleStyleInfluenceSubmit ::
  "string option \<Rightarrow> string option \<Rightarrow> reply \<Rightarrow> App \<Rightarrow> App" where
  "handleStyleInfluenceSubmit subjectRead styleRead r st =
     (case handleStyleInfluenceSubmit_guard st of
        Some message \<Rightarrow> handleStyleInfluenceSubmit_begin st
      | None \<Rightarrow>
          (case stylePayloads subjectRead styleRead st of
             Inl message \<Rightarrow>
               (handleStyleInfluenceSubmit_begin st)
                 \<lparr>error := Some message, appState := INITIAL\<rparr>
           | Inr payloads \<Rightarrow>
               (case generateStyleInfluencePrompt r of
                  Inr result \<Rightarrow>
                    (handleStyleInfluenceSubmit_begin st)
                      \<lparr>enhancedResult := Some result, appState := SHOWING_RESULTS\<rparr>
                | Inl message \<Rightarrow>
                    (handleStyleInfluenceSubmit_begin st)
                      \<lparr>error := Some (message_or message styleFallbackMessage),
                       appState := ERROR\<rparr>)))"

subsection \<open>handleStartOver\<close>

text \<open>\<^verbatim>\<open>if (ref.current) ref.current.value = ""\<close>.\<close>

definition resetInput :: "string option \<Rightarrow> string option" where
  "resetInput current = (case current of None \<Rightarrow> None | Some v \<Rightarrow> Some [])"

definition handleStartOver :: "App \<Rightarrow> App" where
  "handleStartOver st =
     st\<lparr>appState := INITIAL,
        basicPrompt := [],
        questionAnswers := [],
        enhancedResult := None,
        error := None,
        subjectReferenceImageFile := None, subjectReferenceImagePreview := None,
        styleReferenceImageFile := None, styleReferenceImagePreview := None,
        subjectFileInputRef := resetInput (subjectFileInputRef st),
        styleFileInputRef := resetInput (styleFileInputRef st),
        copiedEnhancedPrompt := False,
        copiedNegativePrompt := False,
        copiedSuggestionIndex := None,
        outputAspectRatio := ''auto'',
        outputCustomWidth := [],
        outputCustomHeight := [],
        isEditingEnhancedPrompt := False,
        editedEnhancedPromptText := []\<rparr>"

section \<open>Notions the properties are stated with\<close>



text \<open>\<open>contains s p\<close>: the text \<open>p\<close> occurs in \<open>s\<close>.\<close>

fun is_prefix :: "string \<Rightarrow> string \<Rightarrow> bool" where
  "is_prefix [] s = True"
| "is_prefix (d # ds) [] = False"
| "is_prefix (d # ds) (c # cs) = (if d = c then is_prefix ds cs else False)"

fun contains :: "string \<Rightarrow> string \<Rightarrow> bool" where
  "contains [] p = (p = [])"
| "contains (c # cs) p = (if is_prefix p (c # cs) then True else contains cs p)"

text \<open>The field \<open>k\<close> of a parsed object, \<^verbatim>\<open>undefined\<close> when the object has none.\<close>

definition field :: "(string \<times> js_value) list \<Rightarrow> string \<Rightarrow> js_value" where
  "field fs k = (case map_of fs k of None \<Rightarrow> JUndefined | Some v \<Rightarrow> v)"

text \<open>The result built from a parsed value that has none of the three fields.\<close>

definition resultWithoutFields :: EnhancedPromptResult where
  "resultWithoutFields =
     \<lparr>enhancedPrompt = JUndefined, negativePrompt = JUndefined, suggestions = JArr [],
      outputTypeUsed = RASTER_PROMPT\<rparr>"

text \<open>
  What an operation with a JSON result does with a reply: it fails with its message when
  the call failed, when the text is not JSON and when it parsed to \<^verbatim>\<open>null\<close>; it
  returns a result for every other parsed value, with the fields as they were found.
\<close>

definition returnsFieldsAsFound ::
  "string \<Rightarrow> (reply \<Rightarrow> string + EnhancedPromptResult) \<Rightarrow> bool" where
  "returnsFieldsAsFound message operation =
     (operation CallFailed = Inl message \<and>
      operation NotJson = Inl message \<and>
      operation (Parsed JNull) = Inl message \<and>
      (\<forall>fs. operation (Parsed (JObj fs)) =
         Inr \<lparr>enhancedPrompt = field fs ''enhancedPrompt'',
              negativePrompt = field fs ''negativePrompt'',
              suggestions = or_else (field fs ''suggestions'') (JArr []),
              outputTypeUsed = RASTER_PROMPT\<rparr>) \<and>
      (\<forall>b. operation (Parsed (JBool b)) = Inr resultWithoutFields) \<and>
      (\<forall>n. operation (Parsed (JNum n)) = Inr resultWithoutFields) \<and>
      (\<forall>t. operation (Parsed (JStr t)) = Inr resultWithoutFields) \<and>
      (\<forall>xs. operation (Parsed (JArr xs)) = Inr resultWithoutFields))"

text \<open>A run of answer changes, each the arguments of one call of \<^verbatim>\<open>handleAnswerChange\<close>.\<close>

type_synonym answer_event = "string \<times> string option \<times> string option \<times> bool option"

fun answerChanges :: "answer_event list \<Rightarrow> QuestionAnswer list \<Rightarrow> QuestionAnswer list" where
  "answerChanges [] qas = qas"
| "answerChanges ((questionId, ans, selectedOption, isChecked) # evs) qas =
     answerChanges evs (handleAnswerChange questionId ans selectedOption isChecked qas)"

definition noDuplicates :: "QuestionAnswer list \<Rightarrow> bool" where
  "noDuplicates qas = list_all (\<lambda>qa. distinct (selectedOptions qa)) qas"

section \<open>Verification: answer changes\<close>

lemma newSelectedOptions_distinct:
  "distinct sel \<Longrightarrow> distinct (newSelectedOptions sel selectedOption isChecked)"
  by (auto simp: newSelectedOptions_def split: option.splits)

lemma answerChange_distinct:
  "distinct (selectedOptions qa) \<Longrightarrow>
     distinct (selectedOptions (answerChange questionId ans selectedOption isChecked qa))"
  by (simp add: answerChange_def newSelectedOptions_distinct)

lemma handleAnswerChange_noDuplicates:
  "noDuplicates qas \<Longrightarrow> noDuplicates (handleAnswerChange questionId ans selectedOption isChecked qas)"
  by (simp add: noDuplicates_def handleAnswerChange_def list_all_iff answerChange_distinct)

lemma answerChanges_noDuplicates:
  "noDuplicates qas \<Longrightarrow> noDuplicates (answerChanges evs qas)"
  by (induction evs qas rule: answerChanges.induct)
     (simp_all add: handleAnswerChange_noDuplicates)

lemma toQuestionAnswer_selected:
  "toQuestionAnswer stringify q = Some qa \<Longrightarrow> selectedOptions qa = []"
  by (auto simp: toQuestionAnswer_def split: option.splits)

lemma mapQuestions_selected:
  "mapQuestions stringify qs = Some qas \<Longrightarrow> list_all (\<lambda>qa. selectedOptions qa = []) qas"
  by (induction qs arbitrary: qas) (auto split: option.splits dest: toQuestionAnswer_selected)

lemma generateQuestions_selected:
  "generateQuestions stringify r = Inr qas \<Longrightarrow> list_all (\<lambda>qa. selectedOptions qa = []) qas"
  by (auto simp: generateQuestions_def
           split: reply.splits js_value.splits option.splits dest: mapQuestions_selected)






text \<open>
  C8. Every question that \<^verbatim>\<open>generateQuestions\<close> returns starts with an empty selection,
  and after any run of answer changes no question's selection holds an option twice.
\<close>

theorem selectedOptions_never_duplicated:
  assumes "generateQuestions stringify r = Inr qas"
  shows "list_all (\<lambda>qa. selectedOptions qa = []) qas \<and> noDuplicates (answerChanges evs qas)"
proof -
  have empty: "list_all (\<lambda>qa. selectedOptions qa = []) qas"
    using assms by (rule generateQuestions_selected)
  then have "noDuplicates qas"
    by (simp add: noDuplicates_def list_all_iff)
  then have "noDuplicates (answerChanges evs qas)"
    by (rule answerChanges_noDuplicates)
  with empty show ?thesis by simp
qed

theorem selectedOptions_never_duplicated_witness:
  "generateQuestions (\<lambda>q. [])
       (Parsed (JArr [JObj [(''id'', JStr ''q1''), (''questionText'', JStr ''Styl?''),
                            (''options'', JArr [JStr ''Akwarela''])]]))
     = Inr [\<lparr>qa_id = JStr ''q1'', questionText = JStr ''Styl?'', fullQuestionPrompt = [],
              answer = [], options = JArr [JStr ''Akwarela''], selectedOptions = []\<rparr>]
   \<and> noDuplicates
       (answerChanges
          [(''q1'', None, Some ''Akwarela'', Some True),
           (''q1'', None, Some ''Akwarela'', Some True)]
          [\<lparr>qa_id = JStr ''q1'', questionText = JStr ''Styl?'', fullQuestionPrompt = [],
            answer = [], options = JArr [JStr ''Akwarela''], selectedOptions = []\<rparr>])"
proof -
  have g: "generateQuestions (\<lambda>q. [])
       (Parsed (JArr [JObj [(''id'', JStr ''q1''), (''questionText'', JStr ''Styl?''),
                            (''options'', JArr [JStr ''Akwarela''])]]))
     = Inr [\<lparr>qa_id = JStr ''q1'', questionText = JStr ''Styl?'', fullQuestionPrompt = [],
              answer = [], options = JArr [JStr ''Akwarela''], selectedOptions = []\<rparr>]"
    by (simp add: generateQuestions_def toQuestionAnswer_def or_else_def)
  have n: "noDuplicates (answerChanges evs [\<lparr>qa_id = JStr ''q1'', questionText = JStr ''Styl?'',
      fullQuestionPrompt = [], answer = [], options = JArr [JStr ''Akwarela''],
      selectedOptions = []\<rparr>])" for evs
    using selectedOptions_never_duplicated [OF g] by (rule conjunct2)
  from g n show ?thesis by (rule conjI)
qed

text \<open>
  C10. An answer change keeps the number of questions; a question whose id is not the given
  one is left as it was, and in every question the id, the question text, the stored raw
  question and the options are what they were: only \<open>answer\<close> and \<open>selectedOptions\<close> can
  differ.
\<close>

theorem answer_change_frame:
  "length (handleAnswerChange questionId ans selectedOption isChecked qas) = length qas \<and>
   (\<forall>i < length qas.
      (qa_id (qas ! i) \<noteq> JStr questionId \<longrightarrow>
         handleAnswerChange questionId ans selectedOption isChecked qas ! i = qas ! i) \<and>
      qa_id (handleAnswerChange questionId ans selectedOption isChecked qas ! i) = qa_id (qas ! i) \<and>
      questionText (handleAnswerChange questionId ans selectedOption isChecked qas ! i)
        = questionText (qas ! i) \<and>
      fullQuestionPrompt (handleAnswerChange questionId ans selectedOption isChecked qas ! i)
        = fullQuestionPrompt (qas ! i) \<and>
      options (handleAnswerChange questionId ans selectedOption isChecked qas ! i)
        = options (qas ! i))"
  by (simp add: handleAnswerChange_def answerChange_def)

theorem answer_change_frame_witness:
  "handleAnswerChange ''q1'' (Some ''noc'') (Some ''Akwarela'') (Some True)
     [\<lparr>qa_id = JStr ''q1'', questionText = JStr ''Styl?'', fullQuestionPrompt = ''a'',
       answer = [], options = JArr [JStr ''Akwarela''], selectedOptions = []\<rparr>,
      \<lparr>qa_id = JStr ''q2'', questionText = JStr ''Nastroj?'', fullQuestionPrompt = ''b'',
       answer = [], options = JArr [], selectedOptions = []\<rparr>] ! 1
   = \<lparr>qa_id = JStr ''q2'', questionText = JStr ''Nastroj?'', fullQuestionPrompt = ''b'',
       answer = [], options = JArr [], selectedOptions = []\<rparr>"
  using answer_change_frame [of "''q1''" "Some ''noc''" "Some ''Akwarela''" "Some True"
      "[\<lparr>qa_id = JStr ''q1'', questionText = JStr ''Styl?'', fullQuestionPrompt = ''a'',
         answer = [], options = JArr [JStr ''Akwarela''], selectedOptions = []\<rparr>,
        \<lparr>qa_id = JStr ''q2'', questionText = JStr ''Nastroj?'', fullQuestionPrompt = ''b'',
         answer = [], options = JArr [], selectedOptions = []\<rparr>]"]
  by simp

section \<open>Verification: the reset\<close>

text \<open>
  C5. From any state, \<^verbatim>\<open>handleStartOver\<close> leaves the initial step with an empty idea, no
  questions, no result, no message, neither image nor its preview, the aspect ratio
  \<open>auto\<close>, empty custom width and height, editing off and an empty edit draft.
\<close>

theorem start_over_clears:
  "appState (handleStartOver st) = INITIAL \<and>
   basicPrompt (handleStartOver st) = [] \<and>
   questionAnswers (handleStartOver st) = [] \<and>
   enhancedResult (handleStartOver st) = None \<and>
   error (handleStartOver st) = None \<and>
   subjectReferenceImageFile (handleStartOver st) = None \<and>
   subjectReferenceImagePreview (handleStartOver st) = None \<and>
   styleReferenceImageFile (handleStartOver st) = None \<and>
   styleReferenceImagePreview (handleStartOver st) = None \<and>
   outputAspectRatio (handleStartOver st) = ''auto'' \<and>
   outputCustomWidth (handleStartOver st) = [] \<and>
   outputCustomHeight (handleStartOver st) = [] \<and>
   isEditingEnhancedPrompt (handleStartOver st) = False \<and>
   editedEnhancedPromptText (handleStartOver st) = []"
  by (simp add: handleStartOver_def)

section \<open>Verification: uploads\<close>





section \<open>Verification: the requests\<close>

text \<open>
  C9. The request of every operation that attaches images starts with the instruction
  text; the style-influence operation puts the style image next; the subject image, when
  there is one, comes last. The two operations on one image send the text and that image.
\<close>

theorem request_segments_in_order:
  "generateEnhancedPrompt_parts idea qas subjectImage =
     Text (generateEnhancedPrompt_prompt idea qas)
       # (case subjectImage of None \<Rightarrow> [] | Some s \<Rightarrow> [InlineData (mimeType s) (base64 s)]) \<and>
   generateImageDescription_parts img =
     [Text generateImageDescription_prompt, InlineData (mimeType img) (base64 img)] \<and>
   generateMagicPrompt_parts idea aspectRatio customWidth customHeight subjectImage =
     Text (generateMagicPrompt_prompt idea aspectRatio customWidth customHeight)
       # (case subjectImage of None \<Rightarrow> [] | Some s \<Rightarrow> [InlineData (mimeType s) (base64 s)]) \<and>
   generateCopyImagePrompt_parts img =
     [Text generateCopyImagePrompt_prompt, InlineData (mimeType img) (base64 img)] \<and>
   generateStyleInfluencePrompt_parts idea styleImage subjectImage ratio width height =
     Text (generateStyleInfluencePrompt_prompt idea ratio width height)
       # InlineData (mimeType styleImage) (base64 styleImage)
       # (case subjectImage of None \<Rightarrow> [] | Some s \<Rightarrow> [InlineData (mimeType s) (base64 s)]) \<and>
   refineEditedPrompt_parts edited original qas subjectImage =
     Text (refineEditedPrompt_prompt edited original qas)
       # (case subjectImage of None \<Rightarrow> [] | Some s \<Rightarrow> [InlineData (mimeType s) (base64 s)])"
  by (simp add: generateEnhancedPrompt_parts_def generateImageDescription_parts_def
      generateMagicPrompt_parts_def generateCopyImagePrompt_parts_def
      generateStyleInfluencePrompt_parts_def refineEditedPrompt_parts_def
      pushSubjectImage_def inlineData_def split: option.splits)

text \<open>
  Whatever width and height they are given, both builders write the name of the iPhone
  wallpaper preset as the ratio.
\<close>

lemma iphone_preset_dimensions_text:
  "magicDimensionsText IPHONE_14_WALLPAPER_OPTION_VALUE width height
     = ''Aspect ratio: iphone_14_14pro_wallpaper''"
  "styleDimensionsText (Some IPHONE_14_WALLPAPER_OPTION_VALUE) (Some width) (Some height)
     = ''Aspect ratio: iphone_14_14pro_wallpaper''"
  by (simp_all add: magicDimensionsText_def styleDimensionsText_def truthy_string_def
      string_or_empty_def IPHONE_14_WALLPAPER_OPTION_VALUE_def)

text \<open>
  C2, at the failing input. With the iPhone wallpaper preset selected, the handlers pass
  1170 and 2532 on as width and height, and the builders, which use them only for the ratio
  \<open>custom\<close>, write the preset's name into the instruction: it holds
  \<open>Aspect ratio: iphone_14_14pro_wallpaper\<close> and neither 1170 nor 2532.
\<close>

theorem iphone_preset_request:
  "handleMagicPromptSubmit_request None
     (initialApp\<lparr>basicPrompt := ''cat'', outputAspectRatio := ''iphone_14_14pro_wallpaper''\<rparr>)
     = Some [Text (generateMagicPrompt_prompt ''cat'' ''iphone_14_14pro_wallpaper'' ''1170'' ''2532'')] \<and>
   contains (generateMagicPrompt_prompt ''cat'' ''iphone_14_14pro_wallpaper'' ''1170'' ''2532'')
     ''Aspect ratio: iphone_14_14pro_wallpaper'' \<and>
   contains (generateMagicPrompt_prompt ''cat'' ''iphone_14_14pro_wallpaper'' ''1170'' ''2532'')
     ''1170'' = False \<and>
   contains (generateMagicPrompt_prompt ''cat'' ''iphone_14_14pro_wallpaper'' ''1170'' ''2532'')
     ''2532'' = False \<and>
   handleStyleInfluenceSubmit_request None (Some ''QUJD'')
     (initialApp\<lparr>basicPrompt := ''cat'', outputAspectRatio := ''iphone_14_14pro_wallpaper'',
        styleReferenceImageFile :=
          Some \<lparr>file_name = ''style.png'', file_type = ''image/png'', file_size = 2048\<rparr>\<rparr>)
     = Some [Text (generateStyleInfluencePrompt_prompt ''cat'' (Some ''iphone_14_14pro_wallpaper'')
                     (Some ''1170'') (Some ''2532'')),
             InlineData ''image/png'' ''QUJD''] \<and>
   contains (generateStyleInfluencePrompt_prompt ''cat'' (Some ''iphone_14_14pro_wallpaper'')
               (Some ''1170'') (Some ''2532''))
     ''Aspect ratio: iphone_14_14pro_wallpaper'' \<and>
   contains (generateStyleInfluencePrompt_prompt ''cat'' (Some ''iphone_14_14pro_wallpaper'')
               (Some ''1170'') (Some ''2532''))
     ''1170'' = False"
  by code_simp

section \<open>Verification: the replies\<close>

lemma resultOrError_returnsFieldsAsFound: "returnsFieldsAsFound message (resultOrError message)"
  by (simp add: returnsFieldsAsFound_def resultOrError_def toEnhancedPromptResult_def
      field_def or_else_def resultWithoutFields_def)

text \<open>
  C3 (as amended). Each of the five operations with a JSON result fails, with its own
  message, when the call fails, when the reply is not JSON and when it parses to
  \<^verbatim>\<open>null\<close>. For every other parsed reply it returns a result: the prompts are the fields
  found, \<^verbatim>\<open>undefined\<close> where the reply has none, and only the suggestions get a default.
\<close>

theorem operations_return_fields_as_found:
  "returnsFieldsAsFound ''Failed to generate enhanced prompt'' generateEnhancedPrompt \<and>
   returnsFieldsAsFound ''Failed to generate magic prompt'' generateMagicPrompt \<and>
   returnsFieldsAsFound ''Failed to generate copy image prompt'' generateCopyImagePrompt \<and>
   returnsFieldsAsFound ''Failed to generate style influence prompt'' generateStyleInfluencePrompt \<and>
   returnsFieldsAsFound ''Failed to refine edited prompt'' refineEditedPrompt"
proof -
  have operations:
    "generateEnhancedPrompt = resultOrError ''Failed to generate enhanced prompt''"
    "generateMagicPrompt = resultOrError ''Failed to generate magic prompt''"
    "generateCopyImagePrompt = resultOrError ''Failed to generate copy image prompt''"
    "generateStyleInfluencePrompt = resultOrError ''Failed to generate style influence prompt''"
    "refineEditedPrompt = resultOrError ''Failed to refine edited prompt''"
    by (simp_all add: fun_eq_iff generateEnhancedPrompt_def generateMagicPrompt_def
        generateCopyImagePrompt_def generateStyleInfluencePrompt_def refineEditedPrompt_def)
  show ?thesis
    unfolding operations by (intro conjI resultOrError_returnsFieldsAsFound)
qed

text \<open>
  C3, counterexample. A reply that is valid JSON and has no \<open>enhancedPrompt\<close> is not
  rejected: the operation returns a result whose \<open>enhancedPrompt\<close> is \<^verbatim>\<open>undefined\<close>.
\<close>

theorem missing_field_counterexample:
  "generateEnhancedPrompt (Parsed (JObj [(''negativePrompt'', JStr ''blurry'')])) =
     Inr \<lparr>enhancedPrompt = JUndefined, negativePrompt = JStr ''blurry'',
          suggestions = JArr [], outputTypeUsed = RASTER_PROMPT\<rparr>"
  by (simp add: generateEnhancedPrompt_def resultOrError_def toEnhancedPromptResult_def
      or_else_def)

section \<open>Verification: the questions\<close>

lemma toQuestionAnswer_None_iff:
  "(toQuestionAnswer stringify q = None) = (q = JNull \<or> q = JUndefined)"
  by (cases q) (simp_all add: toQuestionAnswer_def)

lemma toQuestionAnswer_null:
  "toQuestionAnswer stringify JNull = None" "toQuestionAnswer stringify JUndefined = None"
  by (simp_all add: toQuestionAnswer_def)

lemma mapQuestions_None_iff:
  "(mapQuestions stringify qs = None) = (JNull \<in> set qs \<or> JUndefined \<in> set qs)"
  by (induction qs)
     (auto simp: toQuestionAnswer_None_iff toQuestionAnswer_null split: option.splits)

lemma mapQuestions_length:
  "mapQuestions stringify qs = Some qas \<Longrightarrow> length qas = length qs"
  by (induction qs arbitrary: qas) (auto split: option.splits)

lemma eleven: "string_of_nat NUMBER_OF_QUESTIONS_TO_ASK = ''11''"
  by (simp add: NUMBER_OF_QUESTIONS_TO_ASK_def string_of_nat.simps digit_char_def)

lemma countMismatchMessage_text:
  "countMismatchMessage n =
     ''Niespodziewana liczba pyta'' @ n_acute @ '' od AI. Otrzymano '' @ string_of_nat n
       @ '', oczekiwano 11.''"
  by (simp add: countMismatchMessage_def eleven)

lemma checkedQuestions_cases:
  "checkedQuestions stringify r =
     (case r of
        Parsed (JArr qs) \<Rightarrow>
          (case mapQuestions stringify qs of
             None \<Rightarrow> Inl ''Failed to generate questions''
           | Some qas \<Rightarrow>
               if length qs = 11 then Inr qas else Inl (countMismatchMessage (length qs)))
      | _ \<Rightarrow> Inl ''Failed to generate questions'')"
  by (auto simp: checkedQuestions_def generateQuestions_def NUMBER_OF_QUESTIONS_TO_ASK_def
      split: reply.splits js_value.splits option.splits dest: mapQuestions_length)

lemma submit_array:
  assumes "trim (basicPrompt st) \<noteq> []" "mapQuestions stringify qs = Some qas"
  shows "handleBasicPromptSubmit stringify (Parsed (JArr qs)) st =
     (if length qs = 11
      then st\<lparr>error := None, appState := ASKING_QUESTIONS, questionAnswers := qas\<rparr>
      else st\<lparr>error := Some (countMismatchMessage (length qs)), appState := ERROR\<rparr>)"
  using assms
  by (simp add: handleBasicPromptSubmit_def handleBasicPromptSubmit_begin_def
      checkedQuestions_cases message_or_def countMismatchMessage_text)

lemma submit_failed:
  assumes "trim (basicPrompt st) \<noteq> []"
    and "\<And>qs. r = Parsed (JArr qs) \<Longrightarrow> mapQuestions stringify qs = None"
  shows "handleBasicPromptSubmit stringify r st =
     st\<lparr>error := Some ''Failed to generate questions'', appState := ERROR\<rparr>"
  using assms
  by (auto simp: handleBasicPromptSubmit_def handleBasicPromptSubmit_begin_def
      checkedQuestions_cases message_or_def split: reply.splits js_value.splits)

text \<open>
  C1 (as amended). With an idea that is not blank, the submission ends in the
  question-answering step exactly when the reply parses to an array of 11 entries, none of
  them \<^verbatim>\<open>null\<close>; the questions are then the mapped entries, whatever their question
  texts and options are. Every other reply ends in the error step. When the reply is an
  array of another number of entries, none of them \<^verbatim>\<open>null\<close>, the message names the
  number received and the 11 expected; when the reply is no such array, the message is
  that of \<^verbatim>\<open>generateQuestions\<close>.
\<close>

theorem question_count_check:
  assumes "trim (basicPrompt st) \<noteq> []"
  shows
   "((appState (handleBasicPromptSubmit stringify r st) = ASKING_QUESTIONS) =
       (\<exists>qs. r = Parsed (JArr qs) \<and> length qs = 11 \<and> JNull \<notin> set qs \<and> JUndefined \<notin> set qs)) \<and>
    (appState (handleBasicPromptSubmit stringify r st) = ASKING_QUESTIONS \<or>
     appState (handleBasicPromptSubmit stringify r st) = ERROR) \<and>
    (\<forall>qs. r = Parsed (JArr qs) \<and> JNull \<notin> set qs \<and> JUndefined \<notin> set qs \<longrightarrow>
       (if length qs = 11
        then mapQuestions stringify qs
               = Some (questionAnswers (handleBasicPromptSubmit stringify r st))
           \<and> error (handleBasicPromptSubmit stringify r st) = None
        else appState (handleBasicPromptSubmit stringify r st) = ERROR
           \<and> error (handleBasicPromptSubmit stringify r st) =
               Some (''Niespodziewana liczba pyta'' @ n_acute @ '' od AI. Otrzymano ''
                     @ string_of_nat (length qs) @ '', oczekiwano 11.''))) \<and>
    ((\<forall>qs. r = Parsed (JArr qs) \<longrightarrow> JNull \<in> set qs \<or> JUndefined \<in> set qs) \<longrightarrow>
       error (handleBasicPromptSubmit stringify r st) = Some ''Failed to generate questions'')"
proof (cases "\<exists>qs. r = Parsed (JArr qs) \<and> JNull \<notin> set qs \<and> JUndefined \<notin> set qs")
  case True
  then obtain qs where r: "r = Parsed (JArr qs)" and ok: "JNull \<notin> set qs" "JUndefined \<notin> set qs"
    by blast
  from ok obtain qas where m: "mapQuestions stringify qs = Some qas"
    using mapQuestions_None_iff [of stringify qs] by (cases "mapQuestions stringify qs") auto
  show ?thesis
    using submit_array [OF assms m] r ok m by (auto simp: countMismatchMessage_text)
next
  case False
  then have "mapQuestions stringify qs = None" if "r = Parsed (JArr qs)" for qs
    using that by (auto simp: mapQuestions_None_iff)
  from submit_failed [OF assms this] False show ?thesis by auto
qed

lemma trim_kot: "trim ''kot'' = ''kot''"
  by code_simp

theorem question_count_check_witness:
  "trim (basicPrompt (initialApp\<lparr>basicPrompt := ''kot''\<rparr>)) \<noteq> [] \<and>
   appState (handleBasicPromptSubmit (\<lambda>q. [])
      (Parsed (JArr [JObj [(''id'', JStr ''q1'')], JObj [(''id'', JStr ''q2'')]]))
      (initialApp\<lparr>basicPrompt := ''kot''\<rparr>)) = ERROR \<and>
   error (handleBasicPromptSubmit (\<lambda>q. [])
      (Parsed (JArr [JObj [(''id'', JStr ''q1'')], JObj [(''id'', JStr ''q2'')]]))
      (initialApp\<lparr>basicPrompt := ''kot''\<rparr>))
     = Some (''Niespodziewana liczba pyta'' @ n_acute @ '' od AI. Otrzymano 2, oczekiwano 11.'')"
proof -
  have t: "trim (basicPrompt (initialApp\<lparr>basicPrompt := ''kot''\<rparr>)) \<noteq> []"
    by (simp add: trim_kot)
  from question_count_check [OF t, of "\<lambda>q. []"
      "Parsed (JArr [JObj [(''id'', JStr ''q1'')], JObj [(''id'', JStr ''q2'')]])"] t
  show ?thesis
    by (simp add: string_of_nat.simps digit_char_def)
qed

text \<open>
  C1, counterexample. Eleven entries with an empty question text and no options are taken
  as a success: the submission ends in the question-answering step with eleven questions
  whose text is empty and whose options are the empty list.
\<close>

theorem empty_questions_counterexample:
  "appState (handleBasicPromptSubmit (\<lambda>q. [])
      (Parsed (JArr (replicate 11 (JObj [(''id'', JStr ''q''), (''questionText'', JStr [])]))))
      (initialApp\<lparr>basicPrompt := ''sunset over mountains''\<rparr>)) = ASKING_QUESTIONS \<and>
   map (\<lambda>qa. (questionText qa, options qa))
     (questionAnswers (handleBasicPromptSubmit (\<lambda>q. [])
        (Parsed (JArr (replicate 11 (JObj [(''id'', JStr ''q''), (''questionText'', JStr [])]))))
        (initialApp\<lparr>basicPrompt := ''sunset over mountains''\<rparr>)))
     = replicate 11 (JStr [], JArr [])"
  by code_simp

section \<open>Verification: custom dimensions\<close>

lemma trim_Nil: "trim [] = []"
  by (simp add: trim_def trimStart_def trimEnd_def strip.simps leading_Nil)

text \<open>A handler stopped by one of its guards leaves the state as it was, but for the message.\<close>

lemma guard_keeps_state:
  "handleMagicPromptSubmit_guard st = Some message \<Longrightarrow>
     handleMagicPromptSubmit_begin st = st\<lparr>error := Some message\<rparr> \<and>
     handleMagicPromptSubmit subjectRead r st = st\<lparr>error := Some message\<rparr>"
  "handleStyleInfluenceSubmit_guard st = Some message \<Longrightarrow>
     handleStyleInfluenceSubmit_begin st = st\<lparr>error := Some message\<rparr> \<and>
     handleStyleInfluenceSubmit subjectRead styleRead r st = st\<lparr>error := Some message\<rparr>"
  by (simp_all add: handleMagicPromptSubmit_begin_def handleMagicPromptSubmit_def
      handleMagicPromptSubmit_request_def handleStyleInfluenceSubmit_begin_def
      handleStyleInfluenceSubmit_def)

text \<open>
  The three examples of the specification, for the memoised check and for the test in the
  handlers: 0 by 100 is invalid, 1024 by 768 is valid, an empty width is invalid whatever
  the height.
\<close>

lemma custom_dimension_examples:
  "isCustomDimensionsInvalid
     (st\<lparr>outputAspectRatio := ''custom'', outputCustomWidth := ''0'',
         outputCustomHeight := ''100''\<rparr>)"
  "customDimensionsRejected
     (st\<lparr>outputAspectRatio := ''custom'', outputCustomWidth := ''0'',
         outputCustomHeight := ''100''\<rparr>)"
  "\<not> isCustomDimensionsInvalid
     (st\<lparr>outputAspectRatio := ''custom'', outputCustomWidth := ''1024'',
         outputCustomHeight := ''768''\<rparr>)"
  "\<not> customDimensionsRejected
     (st\<lparr>outputAspectRatio := ''custom'', outputCustomWidth := ''1024'',
         outputCustomHeight := ''768''\<rparr>)"
  "isCustomDimensionsInvalid
     (st\<lparr>outputAspectRatio := ''custom'', outputCustomWidth := [],
         outputCustomHeight := height\<rparr>)"
  "customDimensionsRejected
     (st\<lparr>outputAspectRatio := ''custom'', outputCustomWidth := [],
         outputCustomHeight := height\<rparr>)"
proof -
  have t: "trim ''0'' = ''0''" "trim ''100'' = ''100''" "trim ''1024'' = ''1024''"
    "trim ''768'' = ''768''"
    by code_simp+
  have p: "parseInt ''0'' None = Some 0" "parseInt ''0'' (Some 10) = Some 0"
    "parseInt ''100'' None = Some 100" "parseInt ''100'' (Some 10) = Some 100"
    "parseInt ''1024'' None = Some 1024" "parseInt ''1024'' (Some 10) = Some 1024"
    "parseInt ''768'' None = Some 768" "parseInt ''768'' (Some 10) = Some 768"
    by code_simp+
  show "isCustomDimensionsInvalid
     (st\<lparr>outputAspectRatio := ''custom'', outputCustomWidth := ''0'',
         outputCustomHeight := ''100''\<rparr>)"
    and "customDimensionsRejected
     (st\<lparr>outputAspectRatio := ''custom'', outputCustomWidth := ''0'',
         outputCustomHeight := ''100''\<rparr>)"
    and "\<not> isCustomDimensionsInvalid
     (st\<lparr>outputAspectRatio := ''custom'', outputCustomWidth := ''1024'',
         outputCustomHeight := ''768''\<rparr>)"
    and "\<not> customDimensionsRejected
     (st\<lparr>outputAspectRatio := ''custom'', outputCustomWidth := ''1024'',
         outputCustomHeight := ''768''\<rparr>)"
    and "isCustomDimensionsInvalid
     (st\<lparr>outputAspectRatio := ''custom'', outputCustomWidth := [],
         outputCustomHeight := height\<rparr>)"
    and "customDimensionsRejected
     (st\<lparr>outputAspectRatio := ''custom'', outputCustomWidth := [],
         outputCustomHeight := height\<rparr>)"
    by (simp_all add: isCustomDimensionsInvalid_def customDimensionsRejected_def t p trim_Nil
        isNaN_def le_zero_def)
qed


end
